theory Spec2Isabelle
  imports Main "HOL-Library.Sublist"
begin

section \<open>Configuration read from the process environment\<close>

text \<open>
  The server file reads its settings from \<^verbatim>\<open>process.env\<close> with the JavaScript idiom
  \<^verbatim>\<open>process.env.X || 'default'\<close>. A variable that is not set is \<^verbatim>\<open>undefined\<close>; both
  \<^verbatim>\<open>undefined\<close> and the empty string are falsy, so both select the default.
\<close>

record process_env =
  SESSION_SECRET :: "string option"
  JWT_SECRET :: "string option"
  BACKEND_URL :: "string option"

definition or_default :: "string option \<Rightarrow> string \<Rightarrow> string" where
  "or_default v d = (case v of None \<Rightarrow> d | Some s \<Rightarrow> if s = [] then d else s)"

text \<open>\<^verbatim>\<open>secret: process.env.SESSION_SECRET || 'tu_session_secret_aqui'\<close> (session middleware).\<close>

definition session_secret :: "process_env \<Rightarrow> string" where
  "session_secret e = or_default (SESSION_SECRET e) ''tu_session_secret_aqui''"

text \<open>\<^verbatim>\<open>process.env.JWT_SECRET || 'tu_jwt_secret_aqui'\<close> (second argument of jwt.verify).\<close>

definition jwt_secret :: "process_env \<Rightarrow> string" where
  "jwt_secret e = or_default (JWT_SECRET e) ''tu_jwt_secret_aqui''"

text \<open>\<^verbatim>\<open>process.env.BACKEND_URL || 'http://localhost:3001'\<close>.\<close>

definition backend_url :: "process_env \<Rightarrow> string" where
  "backend_url e = or_default (BACKEND_URL e) ''http://localhost:3001''"

text \<open>
  What the module fixes when it is loaded: the environment, the uploads directory
  (\<^verbatim>\<open>path.join(__dirname, 'uploads', 'avatars')\<close>) and the two values imported from
  \<^verbatim>\<open>./config/supabase\<close>: the flag \<^verbatim>\<open>isSupabaseConfigured\<close> and the client \<^verbatim>\<open>supabase\<close>,
  of which the handler only tests the truthiness.
\<close>

record server =
  env :: process_env
  uploadsDir :: string
  isSupabaseConfigured :: bool
  supabase :: bool

section \<open>Requests, responses and the world outside the process\<close>

text \<open>
  The multipart part named \<^verbatim>\<open>avatar\<close>, as multer sees it. \<open>ext\<close> stands for
  \<^verbatim>\<open>path.extname(file.originalname)\<close>, computed by Node's path module; \<open>part_size\<close> is the number of bytes of the part.
\<close>

record upload_part =
  ext :: string
  mimetype :: string
  part_size :: nat

record request =
  authorization :: "string option"
  avatar_part :: "upload_part option"

text \<open>\<^verbatim>\<open>req.file\<close> as the disk storage fills it in.\<close>

record uploaded_file =
  filename :: string
  path :: string

text \<open>
  The payload that jwt.verify hands back. The fields are those of the token kept in the
  two check scripts: \<^verbatim>\<open>id, email, userType, provider, iat, exp\<close>.
\<close>

record jwt_payload =
  claim_id :: string
  claim_email :: string
  claim_userType :: string
  claim_provider :: string
  claim_iat :: nat
  claim_exp :: nat

text \<open>A row of the table \<^verbatim>\<open>user_profiles\<close>, with the columns the check script selects.\<close>

record user_profile =
  user_id :: string
  email :: string
  full_name :: string
  avatar_url :: "string option"
  user_type :: string

text \<open>
  A row of the table \<^verbatim>\<open>freelancers\<close> (the role record). No source file shows its columns;
  the spec names the fields a role record can offer: email and name.
\<close>

record freelancer =
  freelancer_id :: string
  freelancer_email :: "string option"
  freelancer_name :: string

text \<open>
  The state outside the process: the files under the uploads directory and the rows of
  the tables \<^verbatim>\<open>freelancers\<close> and \<^verbatim>\<open>user_profiles\<close>.
\<close>

record world =
  files :: "string set"
  freelancers :: "freelancer list"
  user_profiles :: "user_profile list"

text \<open>
  What the Supabase service does with the update of this request: it applies it and
  returns no error, it returns an \<^verbatim>\<open>error\<close> object, or the awaited call throws.
\<close>

datatype db_reply = Applied | ReturnsError | Throws

text \<open>
  What varies from one request to the next without being part of it: the suffix
  \<^verbatim>\<open>Date.now() + '-' + Math.round(Math.random() * 1E9)\<close> and the service's reply.
\<close>

record occasion =
  uniqueSuffix :: string
  db :: db_reply

text \<open>
  The JSON bodies the server sends. The message texts are Spanish and carry accents, so
  each is a constructor named after its text:
  \<^item> \<open>No_se_proporciono_ningun_archivo\<close>: message \<^verbatim>\<open>No se proporciono ningun archivo\<close> (400);
  \<^item> \<open>Token_de_autenticacion_requerido\<close>: message \<^verbatim>\<open>Token de autenticacion requerido\<close> (401);
  \<^item> \<open>Token_invalido\<close>: message \<^verbatim>\<open>Token invalido\<close> (401);
  \<^item> \<open>Error_al_actualizar_el_avatar\<close>: message
    \<^verbatim>\<open>Error al actualizar el avatar en la base de datos\<close> (500);
  \<^item> \<open>Error_interno_del_servidor\<close>: message \<^verbatim>\<open>Error interno del servidor\<close> (500);
  \<^item> \<open>Avatar_subido_exitosamente url\<close>: message \<^verbatim>\<open>Avatar subido exitosamente\<close> with
    \<^verbatim>\<open>avatar_url: url\<close>;
  \<^item> \<open>Algo_salio_mal\<close>: \<^verbatim>\<open>{ error: 'Algo salio mal!' }\<close> of the error-handling middleware.
\<close>

datatype body =
    No_se_proporciono_ningun_archivo
  | Token_de_autenticacion_requerido
  | Token_invalido
  | Error_al_actualizar_el_avatar
  | Error_interno_del_servidor
  | Avatar_subido_exitosamente string
  | Algo_salio_mal

record response =
  status :: nat
  json :: body

text \<open>
  A request ends with a response, or with none when an exception escapes the handler's
  own catch block (the promise of the async handler is rejected and nothing is sent).
\<close>

datatype reply = Sent response | Unhandled

section \<open>The upload middleware (multer)\<close>

text \<open>\<^verbatim>\<open>fileFilter\<close>: \<^verbatim>\<open>file.mimetype.startsWith('image/')\<close>.\<close>

definition fileFilter :: "upload_part \<Rightarrow> bool" where
  "fileFilter file = prefix ''image/'' (mimetype file)"

text \<open>\<^verbatim>\<open>limits: { fileSize: 5 * 1024 * 1024 }\<close>.\<close>

definition fileSize :: nat where
  "fileSize = 5 * 1024 * 1024"

text \<open>
  The two errors the middleware passes on: the one the filter creates
  (\<^verbatim>\<open>new Error('Solo se permiten archivos de imagen')\<close>) and multer's own error for the
  size limit (code \<^verbatim>\<open>LIMIT_FILE_SIZE\<close>).
\<close>

datatype upload_error = Solo_se_permiten_archivos_de_imagen | LIMIT_FILE_SIZE

text \<open>
  Modelled from the spec: how multer enforces \<^verbatim>\<open>limits.fileSize\<close> is library code that is
  not in the repository; the spec says the asset is rejected "above a fixed size ceiling",
  so a part is refused when its size exceeds the limit. The filter is asked first, when
  the part starts, and the size is known only while the bytes arrive.
\<close>

definition check_part :: "upload_part \<Rightarrow> upload_error + unit" where
  "check_part file =
     (if \<not> fileFilter file then Inl Solo_se_permiten_archivos_de_imagen
      else if part_size file > fileSize then Inl LIMIT_FILE_SIZE
      else Inr ())"

text \<open>
  The storage's \<^verbatim>\<open>filename\<close> and \<^verbatim>\<open>destination\<close> callbacks:
  \<^verbatim>\<open>'avatar-' + uniqueSuffix + path.extname(file.originalname)\<close> inside \<open>uploadsDir\<close>.
\<close>

definition stored_file :: "server \<Rightarrow> occasion \<Rightarrow> upload_part \<Rightarrow> uploaded_file" where
  "stored_file srv occ file =
     (let name = ''avatar-'' @ uniqueSuffix occ @ ext file
      in \<lparr>filename = name, path = uploadsDir srv @ ''/'' @ name\<rparr>)"

text \<open>
  \<^verbatim>\<open>upload.single('avatar')\<close>: with no such part \<^verbatim>\<open>req.file\<close> stays undefined; a part
  that passes the checks is written to disk and described in \<^verbatim>\<open>req.file\<close>; a refused
  part leaves nothing behind and the error goes to the error-handling middleware.
\<close>

definition upload_single ::
  "server \<Rightarrow> occasion \<Rightarrow> request \<Rightarrow> world \<Rightarrow> upload_error + (uploaded_file option \<times> world)" where
  "upload_single srv occ req w =
     (case avatar_part req of
        None \<Rightarrow> Inr (None, w)
      | Some file \<Rightarrow>
          (case check_part file of
             Inl e \<Rightarrow> Inl e
           | Inr _ \<Rightarrow>
               (let f = stored_file srv occ file
                in Inr (Some f, w\<lparr>files := insert (path f) (files w)\<rparr>))))"

section \<open>The avatar endpoint\<close>

text \<open>
  \<^verbatim>\<open>String.prototype.replace\<close> with a string pattern replaces the first occurrence only,
  wherever it is.
\<close>

fun replace_first :: "string \<Rightarrow> string \<Rightarrow> string \<Rightarrow> string" where
  "replace_first pat rep [] = (if pat = [] then rep else [])"
| "replace_first pat rep (c # cs) =
     (if prefix pat (c # cs) then rep @ drop (length pat) (c # cs)
      else c # replace_first pat rep cs)"

text \<open>\<^verbatim>\<open>req.headers.authorization?.replace('Bearer ', '')\<close>.\<close>

definition bearer_token :: "request \<Rightarrow> string option" where
  "bearer_token req = map_option (replace_first ''Bearer '' []) (authorization req)"

text \<open>\<^verbatim>\<open>fs.unlinkSync\<close> removes the file, and throws when there is none.\<close>

datatype fs_error = ENOENT

definition unlinkSync :: "string \<Rightarrow> string set \<Rightarrow> fs_error + string set" where
  "unlinkSync p fs = (if p \<in> fs then Inr (fs - {p}) else Inl ENOENT)"

text \<open>
  \<^verbatim>\<open>supabase.from('user_profiles').update({ avatar_url: avatarUrl }).eq('email', e)\<close>:
  every row whose \<^verbatim>\<open>email\<close> column equals \<open>e\<close> gets the new reference.
\<close>

definition update_avatar_url :: "string \<Rightarrow> string \<Rightarrow> user_profile list \<Rightarrow> user_profile list" where
  "update_avatar_url url e rows =
     map (\<lambda>r. if email r = e then r\<lparr>avatar_url := Some url\<rparr> else r) rows"

text \<open>
  \<^verbatim>\<open>const avatarUrl = `${process.env.BACKEND_URL || 'http://localhost:3001'}/uploads/avatars/${req.file.filename}`\<close>.
\<close>

definition avatarUrl :: "server \<Rightarrow> uploaded_file \<Rightarrow> string" where
  "avatarUrl srv f = backend_url (env srv) @ ''/uploads/avatars/'' @ filename f"

text \<open>
  The outer catch block: it removes the uploaded file when there is one and answers 500.
  The unlink is not guarded, so its exception leaves the handler.
\<close>

definition catch_block :: "uploaded_file option \<Rightarrow> world \<Rightarrow> world \<times> reply" where
  "catch_block file w =
     (case file of
        None \<Rightarrow> (w, Sent \<lparr>status = 500, json = Error_interno_del_servidor\<rparr>)
      | Some f \<Rightarrow>
          (case unlinkSync (path f) (files w) of
             Inl _ \<Rightarrow> (w, Unhandled)
           | Inr fs \<Rightarrow> (w\<lparr>files := fs\<rparr>, Sent \<lparr>status = 500, json = Error_interno_del_servidor\<rparr>)))"

text \<open>
  The handler of \<^verbatim>\<open>POST /api/upload-avatar\<close>, run after the upload middleware. The
  library function jwt.verify is the parameter \<open>jwt_verify\<close>: it takes the token and the
  secret and returns the payload, or the error it throws.
\<close>

definition upload_avatar ::
  "(string \<Rightarrow> string \<Rightarrow> 'e + jwt_payload) \<Rightarrow> server \<Rightarrow> occasion \<Rightarrow> request \<Rightarrow>
     uploaded_file option \<Rightarrow> world \<Rightarrow> world \<times> reply" where
  "upload_avatar jwt_verify srv occ req file w =
     (case file of
        None \<Rightarrow> (w, Sent \<lparr>status = 400, json = No_se_proporciono_ningun_archivo\<rparr>)
      | Some f \<Rightarrow>
          (case bearer_token req of
             None \<Rightarrow> (w, Sent \<lparr>status = 401, json = Token_de_autenticacion_requerido\<rparr>)
           | Some token \<Rightarrow>
               if token = [] then (w, Sent \<lparr>status = 401, json = Token_de_autenticacion_requerido\<rparr>)
               else
                 (case jwt_verify token (jwt_secret (env srv)) of
                    Inl _ \<Rightarrow> (w, Sent \<lparr>status = 401, json = Token_invalido\<rparr>)
                  | Inr decoded \<Rightarrow>
                      (let url = avatarUrl srv f
                       in if isSupabaseConfigured srv \<and> supabase srv then
                            (case db occ of
                               Throws \<Rightarrow> catch_block file w
                             | ReturnsError \<Rightarrow>
                                 (case unlinkSync (path f) (files w) of
                                    Inl _ \<Rightarrow> catch_block file w
                                  | Inr fs \<Rightarrow>
                                      (w\<lparr>files := fs\<rparr>,
                                       Sent \<lparr>status = 500, json = Error_al_actualizar_el_avatar\<rparr>))
                             | Applied \<Rightarrow>
                                 (w\<lparr>user_profiles :=
                                      update_avatar_url url (claim_email decoded) (user_profiles w)\<rparr>,
                                  Sent \<lparr>status = 200, json = Avatar_subido_exitosamente url\<rparr>))
                          else (w, Sent \<lparr>status = 200, json = Avatar_subido_exitosamente url\<rparr>)))))"

text \<open>
  The error-handling middleware \<^verbatim>\<open>app.use((err, req, res, next) => ...)\<close>: whatever the
  error, status 500 and the same body.
\<close>

definition error_middleware :: "upload_error \<Rightarrow> response" where
  "error_middleware err = \<lparr>status = 500, json = Algo_salio_mal\<rparr>"

text \<open>
  The route as it is registered:
  \<^verbatim>\<open>app.post('/api/upload-avatar', upload.single('avatar'), async (req, res) => ...)\<close>.
  The middleware runs first and the handler receives the world it leaves.
\<close>

definition upload_avatar_route ::
  "(string \<Rightarrow> string \<Rightarrow> 'e + jwt_payload) \<Rightarrow> server \<Rightarrow> occasion \<Rightarrow> request \<Rightarrow>
     world \<Rightarrow> world \<times> reply" where
  "upload_avatar_route jwt_verify srv occ req w =
     (case upload_single srv occ req w of
        Inl err \<Rightarrow> (w, Sent (error_middleware err))
      | Inr (file, w') \<Rightarrow> upload_avatar jwt_verify srv occ req file w')"

section \<open>The script that checks the table user_profiles\<close>

text \<open>
  \<^verbatim>\<open>check-user-profiles-table.js\<close> talks to the running API with \<^verbatim>\<open>fetch\<close> and writes to
  the console. A fetch either rejects (the server cannot be reached) or is fulfilled
  with a status and a body; the body is a JSON array of profiles, one profile, some
  other JSON object, or text that is not JSON (on which \<^verbatim>\<open>response.json()\<close> throws).
\<close>

datatype http_body =
    JsonRows "user_profile list"
  | JsonRow user_profile
  | JsonOther
  | Text string

record http_response =
  http_status :: nat
  http_body :: http_body

datatype fetch_result = Rejected string | Fulfilled http_response

text \<open>\<^verbatim>\<open>response.ok\<close>: the status is in the range 200 to 299.\<close>

definition ok :: "http_response \<Rightarrow> bool" where
  "ok r = (200 \<le> http_status r \<and> http_status r \<le> 299)"

text \<open>
  The lines the script prints, one constructor for each \<^verbatim>\<open>console.log\<close> or
  \<^verbatim>\<open>console.error\<close> call, in the order of the source:
  \<^item> \<open>Verificando_tabla\<close>: \<^verbatim>\<open>Verificando tabla user_profiles...\<close>;
  \<^item> \<open>Status_user_profiles n\<close>: \<^verbatim>\<open>Status user_profiles:\<close> and the status;
  \<^item> \<open>User_profiles_encontrados n\<close>: \<^verbatim>\<open>User profiles encontrados:\<close> and \<^verbatim>\<open>data.length || 0\<close>;
  \<^item> \<open>User_line id name type\<close>: \<^verbatim>\<open>- ${user.user_id}: ${user.full_name} (${user.user_type})\<close>;
  \<^item> \<open>No_se_pudo_acceder\<close>: \<^verbatim>\<open>No se pudo acceder a user_profiles\<close>;
  \<^item> \<open>Error_text b\<close>: \<^verbatim>\<open>Error:\<close> and the text of the response;
  \<^item> \<open>Verificando_freelancer id\<close>: \<^verbatim>\<open>Verificando si el freelancer ${freelancerId} existe en user_profiles...\<close>;
  \<^item> \<open>Status_verificacion n\<close>: \<^verbatim>\<open>Status verificacion freelancer:\<close> and the status;
  \<^item> \<open>Freelancer_encontrado b\<close>: \<^verbatim>\<open>Freelancer encontrado en user_profiles:\<close> and the data;
  \<^item> \<open>Freelancer_NO_encontrado\<close>: \<^verbatim>\<open>Freelancer NO encontrado en user_profiles\<close>;
  \<^item> \<open>Solucion_existe_en_freelancers\<close>: \<^verbatim>\<open>SOLUCION: El freelancer existe en la tabla freelancers pero NO en user_profiles.\<close>;
  \<^item> \<open>Solucion_explica_el_fallo\<close>: \<^verbatim>\<open>Esto explica por que el endpoint de mensajes falla.\<close>;
  \<^item> \<open>Solucion_crear_el_registro\<close>: \<^verbatim>\<open>Necesitamos crear el registro en user_profiles o modificar el endpoint.\<close>;
  \<^item> \<open>Caught m\<close>: \<^verbatim>\<open>Error:\<close> and \<^verbatim>\<open>error.message\<close>, printed by the catch block.
\<close>

datatype console_line =
    Verificando_tabla
  | Status_user_profiles nat
  | User_profiles_encontrados nat
  | User_line string string string
  | No_se_pudo_acceder
  | Error_text http_body
  | Verificando_freelancer string
  | Status_verificacion nat
  | Freelancer_encontrado http_body
  | Freelancer_NO_encontrado
  | Solucion_existe_en_freelancers
  | Solucion_explica_el_fallo
  | Solucion_crear_el_registro
  | Caught string

text \<open>\<^verbatim>\<open>const freelancerId = '7f5ad001-cc80-4914-b7b2-7fba5caa4b02'\<close>.\<close>

definition freelancerId :: string where
  "freelancerId = ''7f5ad001-cc80-4914-b7b2-7fba5caa4b02''"

definition user_profiles_url :: string where
  "user_profiles_url = ''http://localhost:3001/api/user-profiles''"

text \<open>
  The first block of the try: the list of all profiles. The result is the lines printed
  and, when something throws, the message that reaches the catch block.
\<close>

definition list_user_profiles :: "fetch_result \<Rightarrow> console_line list \<times> string option" where
  "list_user_profiles res =
     (case res of
        Rejected m \<Rightarrow> ([], Some m)
      | Fulfilled response \<Rightarrow>
          (if ok response then
             (case http_body response of
                JsonRows rows \<Rightarrow>
                  (Status_user_profiles (http_status response)
                     # User_profiles_encontrados (length rows)
                     # map (\<lambda>user. User_line (user_id user) (full_name user) (user_type user)) rows,
                   None)
              | Text t \<Rightarrow> ([Status_user_profiles (http_status response)], Some ''SyntaxError'')
              | _ \<Rightarrow>
                  ([Status_user_profiles (http_status response), User_profiles_encontrados 0], None))
           else
             ([Status_user_profiles (http_status response), No_se_pudo_acceder,
               Error_text (http_body response)], None)))"

text \<open>The second block: does the fixed freelancer id exist in \<^verbatim>\<open>user_profiles\<close>?\<close>

definition verify_freelancer :: "fetch_result \<Rightarrow> console_line list \<times> string option" where
  "verify_freelancer res =
     (case res of
        Rejected m \<Rightarrow> ([Verificando_freelancer freelancerId], Some m)
      | Fulfilled userResponse \<Rightarrow>
          (if ok userResponse then
             (case http_body userResponse of
                Text t \<Rightarrow>
                  ([Verificando_freelancer freelancerId,
                    Status_verificacion (http_status userResponse)], Some ''SyntaxError'')
              | userData \<Rightarrow>
                  ([Verificando_freelancer freelancerId,
                    Status_verificacion (http_status userResponse),
                    Freelancer_encontrado userData], None))
           else
             ([Verificando_freelancer freelancerId,
               Status_verificacion (http_status userResponse),
               Freelancer_NO_encontrado, Error_text (http_body userResponse),
               Solucion_existe_en_freelancers, Solucion_explica_el_fallo,
               Solucion_crear_el_registro], None)))"

text \<open>
  \<^verbatim>\<open>checkUserProfiles\<close>. The parameter \<open>fetch\<close> is the API the script calls: both calls
  are GET requests (no method is given), which read the world and return a response.
  The function returns the world it leaves and the console output; the JavaScript
  function itself returns nothing.
\<close>

definition checkUserProfiles ::
  "(world \<Rightarrow> string \<Rightarrow> fetch_result) \<Rightarrow> world \<Rightarrow> world \<times> console_line list" where
  "checkUserProfiles fetch w =
     (case list_user_profiles (fetch w user_profiles_url) of
        (printed, Some m) \<Rightarrow> (w, Verificando_tabla # printed @ [Caught m])
      | (printed, None) \<Rightarrow>
          (case verify_freelancer (fetch w (user_profiles_url @ ''/'' @ freelancerId)) of
             (printed', Some m) \<Rightarrow> (w, Verificando_tabla # printed @ printed' @ [Caught m])
           | (printed', None) \<Rightarrow> (w, Verificando_tabla # printed @ printed')))"

text \<open>
  Modelled from the spec: the routes \<^verbatim>\<open>GET /api/user-profiles\<close> and
  \<^verbatim>\<open>GET /api/user-profiles/:id\<close> are registered in \<^verbatim>\<open>./routes/supabaseAuth\<close>, which is
  not among the source files. They are taken to be the gateway's reads of the spec:
  the unified profile records, and \<^verbatim>\<open>getUnified(userId) -> UnifiedProfileRecord | NotFound\<close>,
  with NotFound as status 404.
\<close>

definition api_get :: "world \<Rightarrow> string \<Rightarrow> fetch_result" where
  "api_get w url =
     (if url = user_profiles_url then
        Fulfilled \<lparr>http_status = 200, http_body = JsonRows (user_profiles w)\<rparr>
      else if prefix (user_profiles_url @ ''/'') url then
        (case find (\<lambda>r. user_id r = drop (length (user_profiles_url @ ''/'')) url) (user_profiles w) of
           Some r \<Rightarrow> Fulfilled \<lparr>http_status = 200, http_body = JsonRow r\<rparr>
         | None \<Rightarrow> Fulfilled \<lparr>http_status = 404, http_body = JsonOther\<rparr>)
      else Fulfilled \<lparr>http_status = 404, http_body = JsonOther\<rparr>)"

section \<open>The credential codec\<close>

text \<open>
  Modelled from the spec: the Credential Codec. The code that issues credentials is in
  \<^verbatim>\<open>./routes/auth\<close> and \<^verbatim>\<open>./config/passport\<close>, and verification is the library function
  jwt.verify; none of them is among the source files. The model follows section 4.1 and
  the data model of the spec: an identity claim set has six fields; a credential is an
  opaque token that either cannot be parsed or encodes a claim set, an expiry and a
  signature; \<open>issue\<close> binds the expiry at a fixed session lifetime after the issue
  time; \<open>verify\<close> fails with \<open>Malformed\<close>, \<open>InvalidSignature\<close> or \<open>Expired\<close>. Both are
  pure functions of their input and the signing secret; the time of verification is
  the argument \<open>now\<close>. The signature is symbolic: the signature of a body under a secret
  is a value built from exactly that secret and that body.
\<close>

record identity_claim_set =
  subject_id :: string
  claim_set_email :: string
  display_name :: string
  provider_name :: string
  issued_at :: nat
  expires_at :: nat

datatype signature = Signature string identity_claim_set nat

datatype credential =
    Unparsable string
  | Signed identity_claim_set nat signature

datatype auth_error = InvalidSignature | Malformed | Expired

text \<open>
  Modelled from the spec: signing with the process-wide secret (the signing code is not
  among the source files). A credential is "signed"; the signature covers the claim set
  and the expiry.
\<close>

definition sign :: "string \<Rightarrow> identity_claim_set \<Rightarrow> nat \<Rightarrow> signature" where
  "sign secret claims expiry = Signature secret claims expiry"

text \<open>
  Modelled from the spec: \<^verbatim>\<open>issue(claims) -> credential\<close> (the issuing code is not among
  the source files). The claim set is embedded verbatim, and the expiry is the issue
  time plus the session lifetime. The token kept in the check scripts has
  \<^verbatim>\<open>exp - iat = 604800\<close>, a lifetime of seven days.
\<close>

definition issue :: "string \<Rightarrow> nat \<Rightarrow> identity_claim_set \<Rightarrow> credential" where
  "issue secret lifetime claims =
     Signed claims (issued_at claims + lifetime)
       (sign secret claims (issued_at claims + lifetime))"

text \<open>
  Modelled from the spec: \<^verbatim>\<open>verify(credential) -> claims | AuthError\<close> (jwt.verify is
  library code, not among the source files). It fails with \<open>Malformed\<close> if the structure
  cannot be parsed, with \<open>InvalidSignature\<close> if the signature does not match, with
  \<open>Expired\<close> if the current time exceeds the expiry.
\<close>

definition verify :: "string \<Rightarrow> nat \<Rightarrow> credential \<Rightarrow> auth_error + identity_claim_set" where
  "verify secret now cred =
     (case cred of
        Unparsable t \<Rightarrow> Inl Malformed
      | Signed claims expiry sg \<Rightarrow>
          if sg \<noteq> sign secret claims expiry then Inl InvalidSignature
          else if now > expiry then Inl Expired
          else Inr claims)"

section \<open>Example data\<close>

text \<open>
  A server started with none of the three variables set, Supabase configured; the same
  server without Supabase; a world with two profiles; a verifier that knows three tokens
  under the default secret and refuses everything else.
\<close>

definition example_server :: server where
  "example_server =
     \<lparr>env = \<lparr>SESSION_SECRET = None, JWT_SECRET = None, BACKEND_URL = None\<rparr>,
      uploadsDir = ''/app/uploads/avatars'', isSupabaseConfigured = True, supabase = True\<rparr>"

definition example_server_no_supabase :: server where
  "example_server_no_supabase = example_server\<lparr>isSupabaseConfigured := False, supabase := False\<rparr>"

definition ana_claims :: jwt_payload where
  "ana_claims =
     \<lparr>claim_id = ''U1'', claim_email = ''ana@example.com'', claim_userType = ''freelancer'',
      claim_provider = ''google'', claim_iat = 100, claim_exp = 200\<rparr>"

definition example_verify :: "string \<Rightarrow> string \<Rightarrow> unit + jwt_payload" where
  "example_verify token secret =
     (if secret \<noteq> ''tu_jwt_secret_aqui'' then Inl ()
      else if token = ''token-ana'' then Inr ana_claims
      else if token = ''token-ana-later'' then Inr (ana_claims\<lparr>claim_iat := 150, claim_exp := 250\<rparr>)
      else if token = ''token-other-id'' then Inr (ana_claims\<lparr>claim_id := ''U2''\<rparr>)
      else Inl ())"

definition ana_profile :: user_profile where
  "ana_profile =
     \<lparr>user_id = ''U1'', email = ''ana@example.com'', full_name = ''Ana'',
      avatar_url = None, user_type = ''freelancer''\<rparr>"

definition bob_profile :: user_profile where
  "bob_profile =
     \<lparr>user_id = ''U2'', email = ''bob@example.com'', full_name = ''Bob'',
      avatar_url = None, user_type = ''client''\<rparr>"

definition example_world :: world where
  "example_world = \<lparr>files = {}, freelancers = [], user_profiles = [ana_profile, bob_profile]\<rparr>"

definition png_part :: upload_part where
  "png_part = \<lparr>ext = ''.png'', mimetype = ''image/png'', part_size = 2048\<rparr>"

definition example_request :: "string option \<Rightarrow> request" where
  "example_request auth = \<lparr>authorization = auth, avatar_part = Some png_part\<rparr>"

definition first_occasion :: "db_reply \<Rightarrow> occasion" where
  "first_occasion d = \<lparr>uniqueSuffix = ''1750841661000-7'', db = d\<rparr>"

definition second_occasion :: "db_reply \<Rightarrow> occasion" where
  "second_occasion d = \<lparr>uniqueSuffix = ''1750841661001-8'', db = d\<rparr>"

text \<open>
  A world in which the freelancer the script asks about has a role record and no unified
  profile; a claim set for the codec.
\<close>

definition divergent_world :: world where
  "divergent_world =
     \<lparr>files = {},
      freelancers =
        [\<lparr>freelancer_id = ''7f5ad001-cc80-4914-b7b2-7fba5caa4b02'',
          freelancer_email = Some ''fran@example.com'', freelancer_name = ''Fran''\<rparr>],
      user_profiles = [ana_profile]\<rparr>"

definition ana_identity :: identity_claim_set where
  "ana_identity =
     \<lparr>subject_id = ''U1'', claim_set_email = ''ana@example.com'', display_name = ''Ana'',
      provider_name = ''google'', issued_at = 1750841661, expires_at = 1751446461\<rparr>"

lemmas example_defs =
  example_server_def example_server_no_supabase_def ana_claims_def example_verify_def
  ana_profile_def bob_profile_def example_world_def png_part_def example_request_def
  first_occasion_def second_occasion_def divergent_world_def ana_identity_def

lemmas config_defs = or_default_def session_secret_def jwt_secret_def backend_url_def

lemmas route_defs =
  upload_avatar_route_def upload_single_def upload_avatar_def catch_block_def
  check_part_def fileFilter_def fileSize_def stored_file_def bearer_token_def
  unlinkSync_def update_avatar_url_def error_middleware_def avatarUrl_def Let_def

section \<open>Facts about the upload middleware\<close>

lemma upload_single_accepts:
  assumes "avatar_part req = Some part" and "check_part part = Inr ()"
  shows "upload_single srv occ req w =
           Inr (Some (stored_file srv occ part),
                w\<lparr>files := insert (path (stored_file srv occ part)) (files w)\<rparr>)"
  using assms by (simp add: upload_single_def Let_def)

lemma upload_single_rejects:
  assumes "avatar_part req = Some part" and "check_part part = Inl e"
  shows "upload_single srv occ req w = Inl e"
  using assms by (simp add: upload_single_def)

lemma example_token: "bearer_token (example_request (Some ''Bearer token-ana'')) = Some ''token-ana''"
  by (simp add: bearer_token_def example_request_def)

lemma png_part_ok: "check_part png_part = Inr ()"
  by (simp add: check_part_def fileFilter_def fileSize_def png_part_def)

lemma update_avatar_url_overwrites:
  "update_avatar_url url2 e (update_avatar_url url1 e rows) = update_avatar_url url2 e rows"
  by (induction rows) (simp_all add: update_avatar_url_def)

lemma update_avatar_url_rows:
  assumes m: "r \<in> set (update_avatar_url url e rows)" and e: "email r = e"
  shows "avatar_url r = Some url"
proof -
  from m obtain x where r: "r = (if email x = e then x\<lparr>avatar_url := Some url\<rparr> else x)"
    unfolding update_avatar_url_def set_map by blast
  show ?thesis
  proof (cases "email x = e")
    case True
    with r show ?thesis by simp
  next
    case False
    with r e show ?thesis by simp
  qed
qed

lemma route_applied:
  assumes part: "avatar_part req = Some part" "check_part part = Inr ()"
    and token: "bearer_token req = Some token" "token \<noteq> []"
    and verified: "jwt_verify token (jwt_secret (env srv)) = Inr decoded"
    and configured: "isSupabaseConfigured srv" "supabase srv"
    and applied: "db occ = Applied"
  shows "upload_avatar_route jwt_verify srv occ req w =
           (w\<lparr>files := insert (path (stored_file srv occ part)) (files w),
              user_profiles :=
                update_avatar_url (avatarUrl srv (stored_file srv occ part))
                  (claim_email decoded) (user_profiles w)\<rparr>,
            Sent \<lparr>status = 200,
                  json = Avatar_subido_exitosamente (avatarUrl srv (stored_file srv occ part))\<rparr>)"
  using upload_single_accepts [OF part] token verified configured applied
  by (simp add: upload_avatar_route_def upload_avatar_def Let_def)

lemma reply_independent_of_rows:
  "snd (upload_avatar_route jwt_verify srv occ req (w\<lparr>user_profiles := rows\<rparr>)) =
   snd (upload_avatar_route jwt_verify srv occ req w)"
  by (simp add: upload_avatar_route_def upload_single_def upload_avatar_def catch_block_def
        unlinkSync_def Let_def
      split: option.split sum.split db_reply.split)

section \<open>The avatar transaction\<close>

text \<open>
  C1. When the asset of a request has been written to storage and the update of the
  profile's avatar reference then fails (the service returns an error, or the call
  throws), the handler removes the file before it answers: the request ends with a
  response of status 500 in a world where every other file and every profile is as
  before and the file just written is gone.
\<close>

theorem persisted_avatar_removed_when_update_fails:
  assumes part: "avatar_part req = Some part" "check_part part = Inr ()"
    and token: "bearer_token req = Some token" "token \<noteq> []"
    and verified: "jwt_verify token (jwt_secret (env srv)) = Inr decoded"
    and configured: "isSupabaseConfigured srv" "supabase srv"
    and fails: "db occ \<noteq> Applied"
  shows "\<exists>w' r. upload_avatar_route jwt_verify srv occ req w = (w', Sent r)
           \<and> status r = 500
           \<and> path (stored_file srv occ part) \<notin> files w'
           \<and> w' = w\<lparr>files := files w - {path (stored_file srv occ part)}\<rparr>"
proof -
  let ?f = "stored_file srv occ part"
  have mw: "upload_single srv occ req w = Inr (Some ?f, w\<lparr>files := insert (path ?f) (files w)\<rparr>)"
    using part by (rule upload_single_accepts)
  show ?thesis
  proof (cases "db occ")
    case Applied
    with fails show ?thesis by simp
  next
    case ReturnsError
    then show ?thesis
      using mw token verified configured
      by (simp add: upload_avatar_route_def upload_avatar_def unlinkSync_def)
  next
    case Throws
    then show ?thesis
      using mw token verified configured
      by (simp add: upload_avatar_route_def upload_avatar_def catch_block_def unlinkSync_def)
  qed
qed

theorem persisted_avatar_removed_when_update_fails_witness:
  "upload_avatar_route example_verify example_server (first_occasion ReturnsError)
      (example_request (Some ''Bearer token-ana'')) example_world
     = (example_world, Sent \<lparr>status = 500, json = Error_al_actualizar_el_avatar\<rparr>)
   \<and> (\<exists>w' r. upload_avatar_route example_verify example_server (first_occasion ReturnsError)
          (example_request (Some ''Bearer token-ana'')) example_world = (w', Sent r)
        \<and> status r = 500
        \<and> path (stored_file example_server (first_occasion ReturnsError) png_part) \<notin> files w')"
proof -
  have "\<exists>w' r. upload_avatar_route example_verify example_server (first_occasion ReturnsError)
          (example_request (Some ''Bearer token-ana'')) example_world = (w', Sent r)
        \<and> status r = 500
        \<and> path (stored_file example_server (first_occasion ReturnsError) png_part) \<notin> files w'
        \<and> w' = example_world\<lparr>files := files example_world
              - {path (stored_file example_server (first_occasion ReturnsError) png_part)}\<rparr>"
    by (rule persisted_avatar_removed_when_update_fails
          [where part = png_part and token = "''token-ana''" and decoded = ana_claims])
       (simp_all add: example_defs config_defs check_part_def fileFilter_def fileSize_def bearer_token_def)
  moreover have "upload_avatar_route example_verify example_server (first_occasion ReturnsError)
      (example_request (Some ''Bearer token-ana'')) example_world
     = (example_world, Sent \<lparr>status = 500, json = Error_al_actualizar_el_avatar\<rparr>)"
    by (simp add: route_defs example_defs config_defs)
  ultimately show ?thesis by blast
qed

text \<open>
  C10. Without Supabase (the flag false or the client missing) an authenticated request
  with an accepted image is answered 200 with the new avatar URL, the file stays in
  storage, and the profile rows are exactly those from before the request.
\<close>

theorem success_without_supabase_changes_no_profile:
  assumes part: "avatar_part req = Some part" "check_part part = Inr ()"
    and token: "bearer_token req = Some token" "token \<noteq> []"
    and verified: "jwt_verify token (jwt_secret (env srv)) = Inr decoded"
    and unconfigured: "\<not> (isSupabaseConfigured srv \<and> supabase srv)"
  shows "upload_avatar_route jwt_verify srv occ req w =
           (w\<lparr>files := insert (path (stored_file srv occ part)) (files w)\<rparr>,
            Sent \<lparr>status = 200,
                  json = Avatar_subido_exitosamente (avatarUrl srv (stored_file srv occ part))\<rparr>)
         \<and> user_profiles (fst (upload_avatar_route jwt_verify srv occ req w)) = user_profiles w"
proof -
  have "upload_avatar_route jwt_verify srv occ req w =
           (w\<lparr>files := insert (path (stored_file srv occ part)) (files w)\<rparr>,
            Sent \<lparr>status = 200,
                  json = Avatar_subido_exitosamente (avatarUrl srv (stored_file srv occ part))\<rparr>)"
    using upload_single_accepts [OF part] token verified unconfigured
    by (auto simp add: upload_avatar_route_def upload_avatar_def Let_def)
  then show ?thesis by simp
qed

theorem success_without_supabase_changes_no_profile_witness:
  "upload_avatar_route example_verify example_server_no_supabase (first_occasion Applied)
      (example_request (Some ''Bearer token-ana'')) example_world
     = (example_world\<lparr>files := {''/app/uploads/avatars/avatar-1750841661000-7.png''}\<rparr>,
        Sent \<lparr>status = 200,
              json = Avatar_subido_exitosamente
                ''http://localhost:3001/uploads/avatars/avatar-1750841661000-7.png''\<rparr>)
   \<and> user_profiles (fst (upload_avatar_route example_verify example_server_no_supabase
        (first_occasion Applied) (example_request (Some ''Bearer token-ana'')) example_world))
     = [ana_profile, bob_profile]"
  using success_without_supabase_changes_no_profile
    [of "example_request (Some ''Bearer token-ana'')" png_part "''token-ana''"
        example_verify example_server_no_supabase ana_claims "first_occasion Applied" example_world]
  by (simp add: example_defs config_defs route_defs)

text \<open>
  C3 as stated fails: the upload middleware is the first stage of the route, so the file
  is already on disk when the handler looks at the credential. Here a request without
  an Authorization header, and one whose token the verifier refuses, are both answered
  401 while the file written for them is in storage.
\<close>

theorem rejected_credential_leaves_file_counterexample:
  "upload_avatar_route example_verify example_server (first_occasion Applied)
      (example_request None) example_world
     = (example_world\<lparr>files := {''/app/uploads/avatars/avatar-1750841661000-7.png''}\<rparr>,
        Sent \<lparr>status = 401, json = Token_de_autenticacion_requerido\<rparr>)
   \<and> upload_avatar_route example_verify example_server (first_occasion Applied)
      (example_request (Some ''Bearer forged'')) example_world
     = (example_world\<lparr>files := {''/app/uploads/avatars/avatar-1750841661000-7.png''}\<rparr>,
        Sent \<lparr>status = 401, json = Token_invalido\<rparr>)
   \<and> files example_world = {}"
  by (simp add: route_defs example_defs config_defs)

text \<open>
  C3, amended. The upload middleware runs before the credential is examined: a part that
  passes the image and size checks is written to storage whatever the Authorization
  header holds, and the handler starts from the world that contains the file. Only then
  is the credential looked at: a missing or empty token and a token that jwt.verify
  refuses are answered 401. A request without a file is answered 400 before its
  credential is looked at.
\<close>

theorem upload_precedes_credential_check:
  "(avatar_part req = Some part \<and> check_part part = Inr () \<longrightarrow>
      upload_single srv occ (req\<lparr>authorization := a\<rparr>) w =
        Inr (Some (stored_file srv occ part),
             w\<lparr>files := insert (path (stored_file srv occ part)) (files w)\<rparr>)
      \<and> upload_avatar_route jwt_verify srv occ req w =
          upload_avatar jwt_verify srv occ req (Some (stored_file srv occ part))
            (w\<lparr>files := insert (path (stored_file srv occ part)) (files w)\<rparr>)
      \<and> (bearer_token req = None \<or> bearer_token req = Some [] \<longrightarrow>
            snd (upload_avatar_route jwt_verify srv occ req w) =
              Sent \<lparr>status = 401, json = Token_de_autenticacion_requerido\<rparr>)
      \<and> (\<forall>token e. bearer_token req = Some token \<and> token \<noteq> []
              \<and> jwt_verify token (jwt_secret (env srv)) = Inl e \<longrightarrow>
            snd (upload_avatar_route jwt_verify srv occ req w) =
              Sent \<lparr>status = 401, json = Token_invalido\<rparr>))
   \<and> (avatar_part req = None \<longrightarrow>
        upload_avatar_route jwt_verify srv occ req w =
          (w, Sent \<lparr>status = 400, json = No_se_proporciono_ningun_archivo\<rparr>))"
proof (intro conjI impI allI)
  assume "avatar_part req = None"
  then show "upload_avatar_route jwt_verify srv occ req w =
      (w, Sent \<lparr>status = 400, json = No_se_proporciono_ningun_archivo\<rparr>)"
    by (simp add: upload_avatar_route_def upload_single_def upload_avatar_def)
next
  assume ok: "avatar_part req = Some part \<and> check_part part = Inr ()"
  then show "upload_single srv occ (req\<lparr>authorization := a\<rparr>) w =
      Inr (Some (stored_file srv occ part),
           w\<lparr>files := insert (path (stored_file srv occ part)) (files w)\<rparr>)"
    by (simp add: upload_single_def Let_def)
  from ok have mw: "upload_single srv occ req w =
      Inr (Some (stored_file srv occ part),
           w\<lparr>files := insert (path (stored_file srv occ part)) (files w)\<rparr>)"
    by (simp add: upload_single_accepts)
  then show route: "upload_avatar_route jwt_verify srv occ req w =
      upload_avatar jwt_verify srv occ req (Some (stored_file srv occ part))
        (w\<lparr>files := insert (path (stored_file srv occ part)) (files w)\<rparr>)"
    by (simp add: upload_avatar_route_def)
  {
    assume "bearer_token req = None \<or> bearer_token req = Some []"
    then show "snd (upload_avatar_route jwt_verify srv occ req w) =
        Sent \<lparr>status = 401, json = Token_de_autenticacion_requerido\<rparr>"
      unfolding route by (auto simp add: upload_avatar_def)
  }
  {
    fix token e
    assume "bearer_token req = Some token \<and> token \<noteq> []
        \<and> jwt_verify token (jwt_secret (env srv)) = Inl e"
    then show "snd (upload_avatar_route jwt_verify srv occ req w) =
        Sent \<lparr>status = 401, json = Token_invalido\<rparr>"
      unfolding route by (simp add: upload_avatar_def)
  }
qed

theorem upload_precedes_credential_check_witness:
  "upload_single example_server (first_occasion Applied)
      ((example_request None)\<lparr>authorization := Some ''Bearer token-ana''\<rparr>) example_world
     = Inr (Some \<lparr>filename = ''avatar-1750841661000-7.png'',
                  path = ''/app/uploads/avatars/avatar-1750841661000-7.png''\<rparr>,
            example_world\<lparr>files := {''/app/uploads/avatars/avatar-1750841661000-7.png''}\<rparr>)
   \<and> snd (upload_avatar_route example_verify example_server (first_occasion Applied)
        (example_request None) example_world)
     = Sent \<lparr>status = 401, json = Token_de_autenticacion_requerido\<rparr>"
proof -
  have accepted: "avatar_part (example_request None) = Some png_part \<and> check_part png_part = Inr ()"
    by (simp add: example_request_def png_part_ok)
  have no_token: "bearer_token (example_request None) = None
      \<or> bearer_token (example_request None) = Some []"
    by (simp add: bearer_token_def example_request_def)
  have "upload_single example_server (first_occasion Applied)
          ((example_request None)\<lparr>authorization := Some ''Bearer token-ana''\<rparr>) example_world
        = Inr (Some (stored_file example_server (first_occasion Applied) png_part),
               example_world\<lparr>files :=
                 insert (path (stored_file example_server (first_occasion Applied) png_part))
                   (files example_world)\<rparr>)
      \<and> snd (upload_avatar_route example_verify example_server (first_occasion Applied)
            (example_request None) example_world)
        = Sent \<lparr>status = 401, json = Token_de_autenticacion_requerido\<rparr>"
    using upload_precedes_credential_check
      [of "example_request None" png_part example_server "first_occasion Applied"
          "Some ''Bearer token-ana''" example_world example_verify]
      accepted no_token
    by blast
  then show ?thesis
    by (simp add: stored_file_def example_server_def first_occasion_def png_part_def
          example_world_def Let_def)
qed

section \<open>The write to the profile store\<close>

text \<open>
  C5 as stated fails: the update carries no condition on the row's current state. Two
  uploads for the same user, applied one after the other, are both answered 200, and
  the row ends with the reference of the later one.
\<close>

theorem both_avatar_updates_succeed_counterexample:
  "upload_avatar_route example_verify example_server (first_occasion Applied)
      (example_request (Some ''Bearer token-ana'')) example_world
     = (\<lparr>files = {''/app/uploads/avatars/avatar-1750841661000-7.png''},
         freelancers = [],
         user_profiles =
           [ana_profile\<lparr>avatar_url :=
              Some ''http://localhost:3001/uploads/avatars/avatar-1750841661000-7.png''\<rparr>,
            bob_profile]\<rparr>,
        Sent \<lparr>status = 200,
              json = Avatar_subido_exitosamente
                ''http://localhost:3001/uploads/avatars/avatar-1750841661000-7.png''\<rparr>)
   \<and> upload_avatar_route example_verify example_server (second_occasion Applied)
      (example_request (Some ''Bearer token-ana-later''))
      (fst (upload_avatar_route example_verify example_server (first_occasion Applied)
         (example_request (Some ''Bearer token-ana'')) example_world))
     = (\<lparr>files = {''/app/uploads/avatars/avatar-1750841661001-8.png'',
                  ''/app/uploads/avatars/avatar-1750841661000-7.png''},
         freelancers = [],
         user_profiles =
           [ana_profile\<lparr>avatar_url :=
              Some ''http://localhost:3001/uploads/avatars/avatar-1750841661001-8.png''\<rparr>,
            bob_profile]\<rparr>,
        Sent \<lparr>status = 200,
              json = Avatar_subido_exitosamente
                ''http://localhost:3001/uploads/avatars/avatar-1750841661001-8.png''\<rparr>)"
  by (simp add: route_defs example_defs config_defs)

text \<open>
  C5, amended. The avatar update is unconditional (no version or timestamp is compared).
  When two uploads whose credentials carry the same email are applied one after the
  other and the service reports no error, both are answered 200 with their own URL, and
  the rows are those of a single update with the second URL: every row with that email
  holds the second reference, and nothing of the first write is left. The reply to an
  update does not depend on what the profile rows hold when it arrives.
\<close>

theorem second_avatar_update_wins:
  assumes part1: "avatar_part req1 = Some part1" "check_part part1 = Inr ()"
    and part2: "avatar_part req2 = Some part2" "check_part part2 = Inr ()"
    and token1: "bearer_token req1 = Some token1" "token1 \<noteq> []"
    and token2: "bearer_token req2 = Some token2" "token2 \<noteq> []"
    and verified1: "jwt_verify token1 (jwt_secret (env srv)) = Inr decoded1"
    and verified2: "jwt_verify token2 (jwt_secret (env srv)) = Inr decoded2"
    and same_user: "claim_email decoded1 = claim_email decoded2"
    and configured: "isSupabaseConfigured srv" "supabase srv"
    and applied: "db occ1 = Applied" "db occ2 = Applied"
  shows "\<exists>w1 w2.
           upload_avatar_route jwt_verify srv occ1 req1 w =
             (w1, Sent \<lparr>status = 200,
                        json = Avatar_subido_exitosamente (avatarUrl srv (stored_file srv occ1 part1))\<rparr>)
         \<and> upload_avatar_route jwt_verify srv occ2 req2 w1 =
             (w2, Sent \<lparr>status = 200,
                        json = Avatar_subido_exitosamente (avatarUrl srv (stored_file srv occ2 part2))\<rparr>)
         \<and> user_profiles w2 =
             update_avatar_url (avatarUrl srv (stored_file srv occ2 part2)) (claim_email decoded2)
               (user_profiles w)
         \<and> (\<forall>r \<in> set (user_profiles w2).
               email r = claim_email decoded2 \<longrightarrow>
               avatar_url r = Some (avatarUrl srv (stored_file srv occ2 part2)))
         \<and> (\<forall>rows. snd (upload_avatar_route jwt_verify srv occ2 req2 (w\<lparr>user_profiles := rows\<rparr>)) =
               snd (upload_avatar_route jwt_verify srv occ2 req2 w))"
proof -
  let ?url1 = "avatarUrl srv (stored_file srv occ1 part1)"
  let ?url2 = "avatarUrl srv (stored_file srv occ2 part2)"
  let ?w1 = "w\<lparr>files := insert (path (stored_file srv occ1 part1)) (files w),
               user_profiles := update_avatar_url ?url1 (claim_email decoded1) (user_profiles w)\<rparr>"
  let ?w2 = "?w1\<lparr>files := insert (path (stored_file srv occ2 part2)) (files ?w1),
               user_profiles := update_avatar_url ?url2 (claim_email decoded2) (user_profiles ?w1)\<rparr>"
  have first: "upload_avatar_route jwt_verify srv occ1 req1 w =
      (?w1, Sent \<lparr>status = 200, json = Avatar_subido_exitosamente ?url1\<rparr>)"
    using part1 token1 verified1 configured applied(1) by (rule route_applied)
  have second: "upload_avatar_route jwt_verify srv occ2 req2 ?w1 =
      (?w2, Sent \<lparr>status = 200, json = Avatar_subido_exitosamente ?url2\<rparr>)"
    using part2 token2 verified2 configured applied(2) by (rule route_applied)
  have rows: "user_profiles ?w2 = update_avatar_url ?url2 (claim_email decoded2) (user_profiles w)"
    using same_user by (simp add: update_avatar_url_overwrites)
  have "\<forall>r \<in> set (user_profiles ?w2).
      email r = claim_email decoded2 \<longrightarrow> avatar_url r = Some ?url2"
    unfolding rows by (blast dest: update_avatar_url_rows)
  moreover have "\<forall>rows. snd (upload_avatar_route jwt_verify srv occ2 req2 (w\<lparr>user_profiles := rows\<rparr>)) =
      snd (upload_avatar_route jwt_verify srv occ2 req2 w)"
    by (simp add: reply_independent_of_rows)
  ultimately show ?thesis
    using first second rows by blast
qed

theorem second_avatar_update_wins_witness:
  "\<exists>w1 w2.
     upload_avatar_route example_verify example_server (first_occasion Applied)
       (example_request (Some ''Bearer token-ana'')) example_world =
         (w1, Sent \<lparr>status = 200,
                    json = Avatar_subido_exitosamente
                      ''http://localhost:3001/uploads/avatars/avatar-1750841661000-7.png''\<rparr>)
   \<and> upload_avatar_route example_verify example_server (second_occasion Applied)
       (example_request (Some ''Bearer token-ana-later'')) w1 =
         (w2, Sent \<lparr>status = 200,
                    json = Avatar_subido_exitosamente
                      ''http://localhost:3001/uploads/avatars/avatar-1750841661001-8.png''\<rparr>)
   \<and> user_profiles w2 =
        [ana_profile\<lparr>avatar_url :=
           Some ''http://localhost:3001/uploads/avatars/avatar-1750841661001-8.png''\<rparr>,
         bob_profile]"
proof -
  have "\<exists>w1 w2.
     upload_avatar_route example_verify example_server (first_occasion Applied)
       (example_request (Some ''Bearer token-ana'')) example_world =
         (w1, Sent \<lparr>status = 200,
                    json = Avatar_subido_exitosamente
                      (avatarUrl example_server (stored_file example_server (first_occasion Applied) png_part))\<rparr>)
   \<and> upload_avatar_route example_verify example_server (second_occasion Applied)
       (example_request (Some ''Bearer token-ana-later'')) w1 =
         (w2, Sent \<lparr>status = 200,
                    json = Avatar_subido_exitosamente
                      (avatarUrl example_server (stored_file example_server (second_occasion Applied) png_part))\<rparr>)
   \<and> user_profiles w2 =
        update_avatar_url
          (avatarUrl example_server (stored_file example_server (second_occasion Applied) png_part))
          (claim_email (ana_claims\<lparr>claim_iat := 150, claim_exp := 250\<rparr>))
          (user_profiles example_world)
   \<and> (\<forall>r \<in> set (user_profiles w2).
         email r = claim_email (ana_claims\<lparr>claim_iat := 150, claim_exp := 250\<rparr>) \<longrightarrow>
         avatar_url r = Some (avatarUrl example_server
           (stored_file example_server (second_occasion Applied) png_part)))
   \<and> (\<forall>rows. snd (upload_avatar_route example_verify example_server (second_occasion Applied)
           (example_request (Some ''Bearer token-ana-later'')) (example_world\<lparr>user_profiles := rows\<rparr>)) =
         snd (upload_avatar_route example_verify example_server (second_occasion Applied)
           (example_request (Some ''Bearer token-ana-later'')) example_world))"
    by (rule second_avatar_update_wins
          [where ?part1.0 = png_part and ?part2.0 = png_part
             and ?token1.0 = "''token-ana''" and ?token2.0 = "''token-ana-later''"
             and ?decoded1.0 = ana_claims])
       (simp_all add: example_defs config_defs check_part_def fileFilter_def fileSize_def
          bearer_token_def)
  then obtain w1 w2 where
    "upload_avatar_route example_verify example_server (first_occasion Applied)
       (example_request (Some ''Bearer token-ana'')) example_world =
         (w1, Sent \<lparr>status = 200,
                    json = Avatar_subido_exitosamente
                      (avatarUrl example_server (stored_file example_server (first_occasion Applied) png_part))\<rparr>)"
    "upload_avatar_route example_verify example_server (second_occasion Applied)
       (example_request (Some ''Bearer token-ana-later'')) w1 =
         (w2, Sent \<lparr>status = 200,
                    json = Avatar_subido_exitosamente
                      (avatarUrl example_server (stored_file example_server (second_occasion Applied) png_part))\<rparr>)"
    "user_profiles w2 =
        update_avatar_url
          (avatarUrl example_server (stored_file example_server (second_occasion Applied) png_part))
          (claim_email (ana_claims\<lparr>claim_iat := 150, claim_exp := 250\<rparr>))
          (user_profiles example_world)"
    by blast
  moreover have "avatarUrl example_server (stored_file example_server (first_occasion Applied) png_part)
      = ''http://localhost:3001/uploads/avatars/avatar-1750841661000-7.png''"
    by (simp add: avatarUrl_def stored_file_def example_defs config_defs Let_def)
  moreover have "avatarUrl example_server (stored_file example_server (second_occasion Applied) png_part)
      = ''http://localhost:3001/uploads/avatars/avatar-1750841661001-8.png''"
    by (simp add: avatarUrl_def stored_file_def example_defs config_defs Let_def)
  moreover have "update_avatar_url
        ''http://localhost:3001/uploads/avatars/avatar-1750841661001-8.png''
        (claim_email (ana_claims\<lparr>claim_iat := 150, claim_exp := 250\<rparr>))
        (user_profiles example_world)
      = [ana_profile\<lparr>avatar_url :=
           Some ''http://localhost:3001/uploads/avatars/avatar-1750841661001-8.png''\<rparr>,
         bob_profile]"
    by (simp add: update_avatar_url_def example_defs)
  ultimately show ?thesis by metis
qed

text \<open>
  C9 as stated fails: the write selects rows by the \<^verbatim>\<open>email\<close> column. A credential
  whose id is \<open>U2\<close> and whose email is Ana's changes the row of user \<open>U1\<close> and leaves
  the row of user \<open>U2\<close> as it was.
\<close>

theorem avatar_write_ignores_user_id_counterexample:
  "example_verify ''token-other-id'' ''tu_jwt_secret_aqui''
     = Inr (ana_claims\<lparr>claim_id := ''U2''\<rparr>)
   \<and> user_profiles (fst (upload_avatar_route example_verify example_server (first_occasion Applied)
        (example_request (Some ''Bearer token-other-id'')) example_world))
     = [\<lparr>user_id = ''U1'', email = ''ana@example.com'', full_name = ''Ana'',
         avatar_url = Some ''http://localhost:3001/uploads/avatars/avatar-1750841661000-7.png'',
         user_type = ''freelancer''\<rparr>,
        \<lparr>user_id = ''U2'', email = ''bob@example.com'', full_name = ''Bob'',
         avatar_url = None, user_type = ''client''\<rparr>]"
  by (simp add: route_defs example_defs config_defs)

text \<open>
  C9, amended. The write of the avatar transaction addresses the rows of
  \<^verbatim>\<open>user_profiles\<close> by the email of the identity claim set, not by the user id: after a
  successful request the rows are the old ones with the new reference in exactly those
  whose \<^verbatim>\<open>email\<close> equals the credential's email, whatever their \<^verbatim>\<open>user_id\<close>, and a
  credential that differs only in its other claims (the id among them) gives the same
  result.
\<close>

theorem avatar_write_addresses_rows_by_email:
  assumes part: "avatar_part req = Some part" "check_part part = Inr ()"
    and token: "bearer_token req = Some token" "token \<noteq> []"
    and verified: "jwt_verify token (jwt_secret (env srv)) = Inr decoded"
    and verified': "jwt_verify' token (jwt_secret (env srv)) = Inr decoded'"
    and same_email: "claim_email decoded' = claim_email decoded"
    and configured: "isSupabaseConfigured srv" "supabase srv"
    and applied: "db occ = Applied"
  shows "user_profiles (fst (upload_avatar_route jwt_verify srv occ req w)) =
           map (\<lambda>r. if email r = claim_email decoded
                     then r\<lparr>avatar_url := Some (avatarUrl srv (stored_file srv occ part))\<rparr>
                     else r)
             (user_profiles w)
         \<and> upload_avatar_route jwt_verify' srv occ req w = upload_avatar_route jwt_verify srv occ req w"
proof -
  have one: "upload_avatar_route jwt_verify srv occ req w =
      (w\<lparr>files := insert (path (stored_file srv occ part)) (files w),
         user_profiles :=
           update_avatar_url (avatarUrl srv (stored_file srv occ part))
             (claim_email decoded) (user_profiles w)\<rparr>,
       Sent \<lparr>status = 200,
             json = Avatar_subido_exitosamente (avatarUrl srv (stored_file srv occ part))\<rparr>)"
    using part token verified configured applied by (rule route_applied)
  have other: "upload_avatar_route jwt_verify' srv occ req w =
      (w\<lparr>files := insert (path (stored_file srv occ part)) (files w),
         user_profiles :=
           update_avatar_url (avatarUrl srv (stored_file srv occ part))
             (claim_email decoded') (user_profiles w)\<rparr>,
       Sent \<lparr>status = 200,
             json = Avatar_subido_exitosamente (avatarUrl srv (stored_file srv occ part))\<rparr>)"
    using part token verified' configured applied by (rule route_applied)
  from one other same_email show ?thesis
    by (simp add: update_avatar_url_def)
qed

theorem avatar_write_addresses_rows_by_email_witness:
  "user_profiles (fst (upload_avatar_route example_verify example_server (first_occasion Applied)
        (example_request (Some ''Bearer token-other-id'')) example_world))
     = [ana_profile\<lparr>avatar_url :=
          Some ''http://localhost:3001/uploads/avatars/avatar-1750841661000-7.png''\<rparr>,
        bob_profile]"
proof -
  have "user_profiles (fst (upload_avatar_route example_verify example_server
          (first_occasion Applied) (example_request (Some ''Bearer token-other-id'')) example_world))
      = map (\<lambda>r. if email r = claim_email (ana_claims\<lparr>claim_id := ''U2''\<rparr>)
                 then r\<lparr>avatar_url := Some (avatarUrl example_server
                          (stored_file example_server (first_occasion Applied) png_part))\<rparr>
                 else r)
          (user_profiles example_world)
    \<and> upload_avatar_route example_verify example_server (first_occasion Applied)
          (example_request (Some ''Bearer token-other-id'')) example_world
      = upload_avatar_route example_verify example_server (first_occasion Applied)
          (example_request (Some ''Bearer token-other-id'')) example_world"
    by (rule avatar_write_addresses_rows_by_email
          [where token = "''token-other-id''" and decoded' = "ana_claims\<lparr>claim_id := ''U2''\<rparr>"])
       (simp_all add: example_defs config_defs check_part_def fileFilter_def fileSize_def
          bearer_token_def)
  then show ?thesis
    by (simp add: avatarUrl_def stored_file_def example_defs config_defs Let_def)
qed

section \<open>The signing secret\<close>

text \<open>
  C6 as stated fails: with neither secret in the environment nothing stops. The session
  middleware is given the built-in default, jwt.verify is called with the built-in
  default, and a token that verifies under that default is accepted.
\<close>

theorem absent_secret_uses_default_counterexample:
  "JWT_SECRET (env example_server) = None
   \<and> SESSION_SECRET (env example_server) = None
   \<and> jwt_secret (env example_server) = ''tu_jwt_secret_aqui''
   \<and> session_secret (env example_server) = ''tu_session_secret_aqui''
   \<and> snd (upload_avatar_route example_verify example_server (first_occasion Applied)
        (example_request (Some ''Bearer token-ana'')) example_world)
     = Sent \<lparr>status = 200,
             json = Avatar_subido_exitosamente
               ''http://localhost:3001/uploads/avatars/avatar-1750841661000-7.png''\<rparr>"
  by (simp add: route_defs example_defs config_defs)

text \<open>
  C6, amended. When the signing secret is absent from the environment (not set, or set
  to the empty string) the process does not stop: verification goes on with the
  built-in default \<^verbatim>\<open>tu_jwt_secret_aqui\<close>, so the avatar route behaves exactly as if the
  variable had been set to that text; likewise the session middleware gets
  \<^verbatim>\<open>tu_session_secret_aqui\<close>. A secret that is set and not empty is used as it is.
\<close>

theorem absent_secret_replaced_by_default:
  "(JWT_SECRET (env srv) = None \<or> JWT_SECRET (env srv) = Some [] \<longrightarrow>
      jwt_secret (env srv) = ''tu_jwt_secret_aqui''
      \<and> upload_avatar_route jwt_verify srv occ req w =
          upload_avatar_route jwt_verify
            (srv\<lparr>env := (env srv)\<lparr>JWT_SECRET := Some ''tu_jwt_secret_aqui''\<rparr>\<rparr>) occ req w)
   \<and> (SESSION_SECRET (env srv) = None \<or> SESSION_SECRET (env srv) = Some [] \<longrightarrow>
      session_secret (env srv) = ''tu_session_secret_aqui'')
   \<and> (\<forall>s. s \<noteq> [] \<and> JWT_SECRET (env srv) = Some s \<longrightarrow> jwt_secret (env srv) = s)"
proof (intro conjI impI allI)
  assume absent: "JWT_SECRET (env srv) = None \<or> JWT_SECRET (env srv) = Some []"
  then show secret: "jwt_secret (env srv) = ''tu_jwt_secret_aqui''"
    by (auto simp add: jwt_secret_def or_default_def)
  have secret': "jwt_secret (env (srv\<lparr>env := (env srv)\<lparr>JWT_SECRET := Some ''tu_jwt_secret_aqui''\<rparr>\<rparr>))
      = ''tu_jwt_secret_aqui''"
    by (simp add: jwt_secret_def or_default_def)
  have handler: "upload_avatar jwt_verify
        (srv\<lparr>env := (env srv)\<lparr>JWT_SECRET := Some ''tu_jwt_secret_aqui''\<rparr>\<rparr>) occ req uploaded w' =
      upload_avatar jwt_verify srv occ req uploaded w'" for uploaded w'
    unfolding upload_avatar_def secret secret'
    by (simp add: avatarUrl_def backend_url_def split: option.split sum.split)
  have middleware: "upload_single
        (srv\<lparr>env := (env srv)\<lparr>JWT_SECRET := Some ''tu_jwt_secret_aqui''\<rparr>\<rparr>) occ req w =
      upload_single srv occ req w"
    by (simp add: upload_single_def stored_file_def split: option.split sum.split)
  show "upload_avatar_route jwt_verify srv occ req w =
      upload_avatar_route jwt_verify
        (srv\<lparr>env := (env srv)\<lparr>JWT_SECRET := Some ''tu_jwt_secret_aqui''\<rparr>\<rparr>) occ req w"
    unfolding upload_avatar_route_def handler middleware ..
next
  assume "SESSION_SECRET (env srv) = None \<or> SESSION_SECRET (env srv) = Some []"
  then show "session_secret (env srv) = ''tu_session_secret_aqui''"
    by (auto simp add: session_secret_def or_default_def)
next
  fix s
  assume "s \<noteq> [] \<and> JWT_SECRET (env srv) = Some s"
  then show "jwt_secret (env srv) = s"
    by (simp add: jwt_secret_def or_default_def)
qed

theorem absent_secret_replaced_by_default_witness:
  "jwt_secret (env example_server) = ''tu_jwt_secret_aqui''
   \<and> session_secret (env example_server) = ''tu_session_secret_aqui''
   \<and> upload_avatar_route example_verify example_server (first_occasion Applied)
        (example_request (Some ''Bearer token-ana'')) example_world
     = upload_avatar_route example_verify
        (example_server\<lparr>env := (env example_server)\<lparr>JWT_SECRET := Some ''tu_jwt_secret_aqui''\<rparr>\<rparr>)
        (first_occasion Applied) (example_request (Some ''Bearer token-ana'')) example_world"
proof -
  have "JWT_SECRET (env example_server) = None \<or> JWT_SECRET (env example_server) = Some []"
    and "SESSION_SECRET (env example_server) = None \<or> SESSION_SECRET (env example_server) = Some []"
    by (simp_all add: example_server_def)
  with absent_secret_replaced_by_default
    [of example_server example_verify "first_occasion Applied"
        "example_request (Some ''Bearer token-ana'')" example_world]
  show ?thesis by blast
qed

section \<open>The checks on the uploaded asset\<close>

text \<open>
  C8. A part whose declared type does not start with \<^verbatim>\<open>image/\<close> is refused with the
  filter's error (the spec's UnsupportedMediaType), an image part of more than
  5 * 1024 * 1024 = 5242880 bytes is refused with the size-limit error (the spec's
  PayloadTooLarge), and an image part of at most that size passes both checks and is
  stored. A refused part stops the route: the handler is not run, nothing is written,
  and the error-handling middleware answers.
\<close>

theorem avatar_part_checks:
  "(\<not> prefix ''image/'' (mimetype part) \<longrightarrow>
      check_part part = Inl Solo_se_permiten_archivos_de_imagen)
   \<and> (prefix ''image/'' (mimetype part) \<and> part_size part > 5242880 \<longrightarrow>
      check_part part = Inl LIMIT_FILE_SIZE)
   \<and> (prefix ''image/'' (mimetype part) \<and> part_size part \<le> 5242880 \<longrightarrow>
      check_part part = Inr ())
   \<and> (\<forall>e. avatar_part req = Some part \<and> check_part part = Inl e \<longrightarrow>
      upload_single srv occ req w = Inl e
      \<and> upload_avatar_route jwt_verify srv occ req w = (w, Sent (error_middleware e)))
   \<and> (avatar_part req = Some part \<and> check_part part = Inr () \<longrightarrow>
      upload_single srv occ req w =
        Inr (Some (stored_file srv occ part),
             w\<lparr>files := insert (path (stored_file srv occ part)) (files w)\<rparr>))"
  by (auto simp add: check_part_def fileFilter_def fileSize_def upload_single_def
        upload_avatar_route_def Let_def)

theorem avatar_part_checks_witness:
  "check_part \<lparr>ext = ''.pdf'', mimetype = ''application/pdf'', part_size = 10\<rparr>
     = Inl Solo_se_permiten_archivos_de_imagen
   \<and> check_part \<lparr>ext = ''.png'', mimetype = ''image/png'', part_size = 5242881\<rparr>
     = Inl LIMIT_FILE_SIZE
   \<and> check_part \<lparr>ext = ''.png'', mimetype = ''image/png'', part_size = 5242880\<rparr> = Inr ()
   \<and> upload_avatar_route example_verify example_server (first_occasion Applied)
        \<lparr>authorization = Some ''Bearer token-ana'',
         avatar_part = Some \<lparr>ext = ''.png'', mimetype = ''image/png'', part_size = 5242881\<rparr>\<rparr>
        example_world
     = (example_world, Sent \<lparr>status = 500, json = Algo_salio_mal\<rparr>)"
proof -
  have pdf: "\<not> prefix ''image/'' (mimetype \<lparr>ext = ''.pdf'', mimetype = ''application/pdf'', part_size = 10\<rparr>)"
    by simp
  have big: "prefix ''image/'' (mimetype \<lparr>ext = ''.png'', mimetype = ''image/png'', part_size = 5242881\<rparr>)
      \<and> part_size \<lparr>ext = ''.png'', mimetype = ''image/png'', part_size = 5242881\<rparr> > 5242880"
    by simp
  have fits: "prefix ''image/'' (mimetype \<lparr>ext = ''.png'', mimetype = ''image/png'', part_size = 5242880\<rparr>)
      \<and> part_size \<lparr>ext = ''.png'', mimetype = ''image/png'', part_size = 5242880\<rparr> \<le> 5242880"
    by simp
  have 1: "check_part \<lparr>ext = ''.pdf'', mimetype = ''application/pdf'', part_size = 10\<rparr>
      = Inl Solo_se_permiten_archivos_de_imagen"
    using avatar_part_checks [of "\<lparr>ext = ''.pdf'', mimetype = ''application/pdf'', part_size = 10\<rparr>"] pdf
    by blast
  have 2: "check_part \<lparr>ext = ''.png'', mimetype = ''image/png'', part_size = 5242881\<rparr>
      = Inl LIMIT_FILE_SIZE"
    using avatar_part_checks [of "\<lparr>ext = ''.png'', mimetype = ''image/png'', part_size = 5242881\<rparr>"] big
    by blast
  have 3: "check_part \<lparr>ext = ''.png'', mimetype = ''image/png'', part_size = 5242880\<rparr> = Inr ()"
    using avatar_part_checks [of "\<lparr>ext = ''.png'', mimetype = ''image/png'', part_size = 5242880\<rparr>"] fits
    by blast
  have req: "avatar_part \<lparr>authorization = Some ''Bearer token-ana'',
         avatar_part = Some \<lparr>ext = ''.png'', mimetype = ''image/png'', part_size = 5242881\<rparr>\<rparr>
      = Some \<lparr>ext = ''.png'', mimetype = ''image/png'', part_size = 5242881\<rparr>"
    by simp
  have 4: "upload_avatar_route example_verify example_server (first_occasion Applied)
        \<lparr>authorization = Some ''Bearer token-ana'',
         avatar_part = Some \<lparr>ext = ''.png'', mimetype = ''image/png'', part_size = 5242881\<rparr>\<rparr>
        example_world
     = (example_world, Sent (error_middleware LIMIT_FILE_SIZE))"
    using avatar_part_checks
      [of "\<lparr>ext = ''.png'', mimetype = ''image/png'', part_size = 5242881\<rparr>"
          "\<lparr>authorization = Some ''Bearer token-ana'',
            avatar_part = Some \<lparr>ext = ''.png'', mimetype = ''image/png'', part_size = 5242881\<rparr>\<rparr>"
          example_server "first_occasion Applied" example_world example_verify]
      req 2
    by blast
  from 1 2 3 4 show ?thesis by (simp add: error_middleware_def)
qed

section \<open>Divergence between the two profile tables\<close>

text \<open>
  C2 as stated fails: the check script finds the divergence and stops there. In a world
  where the freelancer it asks about has a role record with an email and no unified
  profile, the run prints its diagnosis and leaves the world as it was: afterwards
  there is still no unified profile for that id, and what the run produced is console
  output, not an error value.
\<close>

theorem check_script_leaves_divergence_counterexample:
  "checkUserProfiles api_get divergent_world
     = (divergent_world,
        [Verificando_tabla, Status_user_profiles 200, User_profiles_encontrados 1,
         User_line ''U1'' ''Ana'' ''freelancer'',
         Verificando_freelancer ''7f5ad001-cc80-4914-b7b2-7fba5caa4b02'',
         Status_verificacion 404, Freelancer_NO_encontrado, Error_text JsonOther,
         Solucion_existe_en_freelancers, Solucion_explica_el_fallo, Solucion_crear_el_registro])
   \<and> find (\<lambda>f. freelancer_id f = freelancerId) (freelancers divergent_world)
     = Some \<lparr>freelancer_id = ''7f5ad001-cc80-4914-b7b2-7fba5caa4b02'',
             freelancer_email = Some ''fran@example.com'', freelancer_name = ''Fran''\<rparr>
   \<and> find (\<lambda>r. user_id r = freelancerId)
       (user_profiles (fst (checkUserProfiles api_get divergent_world))) = None"
  by (simp add: checkUserProfiles_def list_user_profiles_def verify_freelancer_def api_get_def
        ok_def user_profiles_url_def freelancerId_def divergent_world_def ana_profile_def)

text \<open>
  C2, amended. The check script only detects the divergence, and only for the one
  freelancer id written in it. Whatever the API answers, the run writes nothing: the
  world after it is the world before it. When no unified profile has that id, the API's
  answer is not OK and the run prints that the freelancer is not in
  \<^verbatim>\<open>user_profiles\<close>, followed by the three lines that say the freelancer exists in
  \<^verbatim>\<open>freelancers\<close> but not in \<^verbatim>\<open>user_profiles\<close> and that the record has to be created. It
  persists no unified profile and returns no IrreconcilableProfile.
\<close>

theorem check_script_reports_divergence_and_writes_nothing:
  "fst (checkUserProfiles fetch w) = w
   \<and> (find (\<lambda>r. user_id r = freelancerId) (user_profiles w) = None \<longrightarrow>
        checkUserProfiles api_get w =
          (w, Verificando_tabla # Status_user_profiles 200
                # User_profiles_encontrados (length (user_profiles w))
                # map (\<lambda>user. User_line (user_id user) (full_name user) (user_type user))
                    (user_profiles w)
                @ [Verificando_freelancer freelancerId, Status_verificacion 404,
                   Freelancer_NO_encontrado, Error_text JsonOther,
                   Solucion_existe_en_freelancers, Solucion_explica_el_fallo,
                   Solucion_crear_el_registro]))"
proof (intro conjI impI)
  show "fst (checkUserProfiles fetch w) = w"
    by (simp add: checkUserProfiles_def split: prod.split option.split)
next
  assume missing: "find (\<lambda>r. user_id r = freelancerId) (user_profiles w) = None"
  have list: "api_get w user_profiles_url =
      Fulfilled \<lparr>http_status = 200, http_body = JsonRows (user_profiles w)\<rparr>"
    by (simp add: api_get_def)
  have one: "api_get w (user_profiles_url @ ''/'' @ freelancerId) =
      Fulfilled \<lparr>http_status = 404, http_body = JsonOther\<rparr>"
    using missing by (simp add: api_get_def)
  show "checkUserProfiles api_get w =
      (w, Verificando_tabla # Status_user_profiles 200
            # User_profiles_encontrados (length (user_profiles w))
            # map (\<lambda>user. User_line (user_id user) (full_name user) (user_type user))
                (user_profiles w)
            @ [Verificando_freelancer freelancerId, Status_verificacion 404,
               Freelancer_NO_encontrado, Error_text JsonOther,
               Solucion_existe_en_freelancers, Solucion_explica_el_fallo,
               Solucion_crear_el_registro])"
    unfolding checkUserProfiles_def list one
    by (simp add: list_user_profiles_def verify_freelancer_def ok_def)
qed

theorem check_script_reports_divergence_and_writes_nothing_witness:
  "find (\<lambda>r. user_id r = freelancerId) (user_profiles divergent_world) = None
   \<and> checkUserProfiles api_get divergent_world =
       (divergent_world,
        Verificando_tabla # Status_user_profiles 200
          # User_profiles_encontrados (length (user_profiles divergent_world))
          # map (\<lambda>user. User_line (user_id user) (full_name user) (user_type user))
              (user_profiles divergent_world)
          @ [Verificando_freelancer freelancerId, Status_verificacion 404,
             Freelancer_NO_encontrado, Error_text JsonOther,
             Solucion_existe_en_freelancers, Solucion_explica_el_fallo,
             Solucion_crear_el_registro])"
proof -
  have missing: "find (\<lambda>r. user_id r = freelancerId) (user_profiles divergent_world) = None"
    by (simp add: divergent_world_def ana_profile_def freelancerId_def)
  with check_script_reports_divergence_and_writes_nothing [of api_get divergent_world]
  show ?thesis by blast
qed

section \<open>Properties of the credential codec\<close>

text \<open>
  C4. Verification has three distinct failures. A credential that cannot be parsed
  gives \<open>Malformed\<close>. A credential whose signature is not the signature of its body
  under the secret gives \<open>InvalidSignature\<close>; this covers a credential issued under
  another secret and an issued credential whose claims or expiry were changed. A
  credential that parses and is correctly signed, checked after its expiry, gives
  \<open>Expired\<close>, which is neither of the other two errors nor a success.
\<close>

theorem verify_distinguishes_failure_kinds:
  "verify secret now (Unparsable t) = Inl Malformed
   \<and> (sg \<noteq> sign secret claims expiry \<longrightarrow>
        verify secret now (Signed claims expiry sg) = Inl InvalidSignature)
   \<and> (secret' \<noteq> secret \<longrightarrow>
        verify secret now (issue secret' lifetime claims) = Inl InvalidSignature)
   \<and> (claims' \<noteq> claims \<or> expiry' \<noteq> expiry \<longrightarrow>
        verify secret now (Signed claims' expiry' (sign secret claims expiry)) = Inl InvalidSignature)
   \<and> (now > expiry \<longrightarrow>
        verify secret now (Signed claims expiry (sign secret claims expiry)) = Inl Expired)
   \<and> (now > issued_at claims + lifetime \<longrightarrow>
        verify secret now (issue secret lifetime claims) = Inl Expired)
   \<and> Inl Expired \<noteq> (Inl InvalidSignature :: auth_error + identity_claim_set)
   \<and> Inl Expired \<noteq> (Inl Malformed :: auth_error + identity_claim_set)
   \<and> Inl Expired \<noteq> (Inr claims :: auth_error + identity_claim_set)"
  by (auto simp add: verify_def issue_def sign_def)

theorem verify_distinguishes_failure_kinds_witness:
  "verify ''s3cret'' 1751500000 (Unparsable ''not a token'') = Inl Malformed
   \<and> verify ''s3cret'' 1750841700 (issue ''other'' 604800 ana_identity) = Inl InvalidSignature
   \<and> verify ''s3cret'' 1750841700
        (Signed (ana_identity\<lparr>subject_id := ''U2''\<rparr>) 1751446461
           (sign ''s3cret'' ana_identity 1751446461)) = Inl InvalidSignature
   \<and> verify ''s3cret'' 1751500000 (issue ''s3cret'' 604800 ana_identity) = Inl Expired"
proof -
  have other: "''other'' \<noteq> ''s3cret''"
    by simp
  have changed: "ana_identity\<lparr>subject_id := ''U2''\<rparr> \<noteq> ana_identity
      \<or> (1751446461 :: nat) \<noteq> 1751446461"
    by (simp add: ana_identity_def)
  have late: "(1751500000 :: nat) > issued_at ana_identity + 604800"
    by (simp add: ana_identity_def)
  have 1: "verify ''s3cret'' 1751500000 (Unparsable ''not a token'') = Inl Malformed"
    using verify_distinguishes_failure_kinds [of "''s3cret''" 1751500000 "''not a token''"]
    by blast
  have 2: "verify ''s3cret'' 1750841700 (issue ''other'' 604800 ana_identity) = Inl InvalidSignature"
    using verify_distinguishes_failure_kinds
      [of "''s3cret''" 1750841700 _ _ _ _ "''other''" 604800 ana_identity] other
    by blast
  have 3: "verify ''s3cret'' 1750841700
        (Signed (ana_identity\<lparr>subject_id := ''U2''\<rparr>) 1751446461
           (sign ''s3cret'' ana_identity 1751446461)) = Inl InvalidSignature"
    using verify_distinguishes_failure_kinds
      [where secret = "''s3cret''" and now = 1750841700 and claims = ana_identity
         and expiry = 1751446461 and claims' = "ana_identity\<lparr>subject_id := ''U2''\<rparr>"
         and expiry' = 1751446461] changed
    by blast
  have 4: "verify ''s3cret'' 1751500000 (issue ''s3cret'' 604800 ana_identity) = Inl Expired"
    using verify_distinguishes_failure_kinds
      [where secret = "''s3cret''" and now = 1751500000 and claims = ana_identity
         and lifetime = 604800] late
    by blast
  from 1 2 3 4 show ?thesis by blast
qed

text \<open>
  C7. Verifying the credential issued for a claim set returns that claim set unchanged,
  for every claim set, secret and session lifetime, as long as the verification takes
  place no later than the expiry that \<open>issue\<close> bound (after it, verification gives
  \<open>Expired\<close>, as the spec requires).
\<close>

theorem verify_issue_roundtrip:
  assumes "now \<le> issued_at claims + lifetime"
  shows "verify secret now (issue secret lifetime claims) = Inr claims"
  using assms by (simp add: verify_def issue_def)

theorem verify_issue_roundtrip_witness:
  "verify ''s3cret'' 1750841700 (issue ''s3cret'' 604800 ana_identity) = Inr ana_identity"
  by (rule verify_issue_roundtrip) (simp add: ana_identity_def)

end
